theory Spec2Isabelle
  imports Main "HOL-Library.AList" "HOL-Library.Char_ord" "HOL-Library.List_Lexorder"
begin

section \<open>Python values used by the handlers\<close>

text \<open>
  The three Lambda functions (\<^verbatim>\<open>lambda/task/handler.py\<close> with
  \<^verbatim>\<open>lambda/task/notifications.py\<close>, \<^verbatim>\<open>lambda/user/handler.py\<close> and
  \<^verbatim>\<open>lambda/deadline/handler.py\<close>) work on dictionaries with string keys. A dictionary
  is an association list; the values of the fields the handlers touch (identifiers, status,
  timestamps, free text) are strings. For the task handler a request body is the dictionary
  that \<^verbatim>\<open>json.loads\<close> returns for it; the user handler, which parses inside its
  \<^verbatim>\<open>try\<close> block, is given the body as the event holds it.
\<close>

type_synonym dict = "(string \<times> string) list"

datatype exn =
    KeyError string
  | AttributeError string
  | TypeError string
  | JSONDecodeError string
  | ClientError string
  | OtherError string

text \<open>
  \<^verbatim>\<open>str(e)\<close> of an exception: its message, and for a \<^verbatim>\<open>KeyError\<close> the key in
  single quotes (the \<^verbatim>\<open>repr\<close> of a key that holds no quote itself).
\<close>

fun exn_text :: "exn \<Rightarrow> string" where
  "exn_text (KeyError k) = [CHR 0x27] @ k @ [CHR 0x27]"
| "exn_text (AttributeError m) = m"
| "exn_text (TypeError m) = m"
| "exn_text (JSONDecodeError m) = m"
| "exn_text (ClientError m) = m"
| "exn_text (OtherError m) = m"

text \<open>\<^verbatim>\<open>d.get(k)\<close>: the value, or \<^verbatim>\<open>None\<close>.\<close>

definition dget :: "dict \<Rightarrow> string \<Rightarrow> string option" where
  "dget d k = map_of d k"

text \<open>\<^verbatim>\<open>d[k]\<close>: the value, or \<^verbatim>\<open>KeyError\<close>.\<close>

definition subscript :: "dict \<Rightarrow> string \<Rightarrow> exn + string" where
  "subscript d k = (case map_of d k of None \<Rightarrow> Inl (KeyError k) | Some v \<Rightarrow> Inr v)"

text \<open>\<^verbatim>\<open>d[k] = v\<close>.\<close>

definition dset :: "dict \<Rightarrow> string \<Rightarrow> string \<Rightarrow> dict" where
  "dset d k v = AList.update k v d"

text \<open>\<^verbatim>\<open>d.update(e)\<close>.\<close>

definition dict_update :: "dict \<Rightarrow> dict \<Rightarrow> dict" where
  "dict_update d e = fold (\<lambda>kv acc. AList.update (fst kv) (snd kv) acc) e d"

text \<open>
  Python truthiness of an optional string, the test behind \<^verbatim>\<open>if not x\<close>:
  \<^verbatim>\<open>None\<close> and the empty string are false.
\<close>

definition truthy :: "string option \<Rightarrow> bool" where
  "truthy v = (case v of None \<Rightarrow> False | Some s \<Rightarrow> s \<noteq> [])"

text \<open>How an f-string prints an optional string.\<close>

definition fmt :: "string option \<Rightarrow> string" where
  "fmt v = (case v of None \<Rightarrow> ''None'' | Some s \<Rightarrow> s)"

text \<open>The string held by a value that has already been tested truthy.\<close>

definition str_of :: "string option \<Rightarrow> string" where
  "str_of v = (case v of None \<Rightarrow> [] | Some s \<Rightarrow> s)"

section \<open>The external services\<close>

text \<open>
  The task table (DynamoDB), the user pool (Cognito) and the two notification channels
  (SES, SNS) are state outside the handlers. The world records the table's items, the
  pool's users, every service call the handlers issue (in order) and every message a
  channel accepted.
\<close>

record cognito_user =
  Username :: string
  Attributes :: dict
  Enabled :: bool
  UserStatus :: string
  Groups :: "string list"

datatype call =
    DdbScan "string option"
  | DdbGetItem string
  | DdbPutItem dict
  | ListUsers "string option"
  | AdminGetUser string
  | AdminCreateUser string dict string
  | AdminAddUserToGroup string string
  | AdminListGroupsForUser string
  | SesSendEmail string
  | SnsPublish string

datatype message =
    Email string string string string
  | Notification string "string option" string

record world =
  tasks :: "dict list"
  users :: "cognito_user list"
  trace :: "call list"
  outbox :: "message list"

text \<open>
  What a handler reads from outside the request: the environment variables, two successive
  readings of the clock, the UUID generator, and for each kind of service call whether it
  raises (and what). \<^verbatim>\<open>table.scan\<close>, which no handler wraps in \<^verbatim>\<open>try\<close>, is
  taken not to raise.
\<close>

record env =
  SENDER_EMAIL_ADDRESS :: "string option"
  NOTIFICATION_TOPIC_ARN :: "string option"
  USER_POOL_ID :: "string option"
  clock1 :: string
  clock2 :: string
  uuid4 :: string
  list_users_raises :: "exn option"
  admin_get_user_raises :: "exn option"
  get_item_raises :: "exn option"
  put_item_raises :: "exn option"
  send_email_raises :: "exn option"
  publish_raises :: "exn option"
  admin_create_user_raises :: "exn option"
  admin_add_user_to_group_raises :: "exn option"
  admin_list_groups_raises :: "exn option"

definition log :: "call \<Rightarrow> world \<Rightarrow> world" where
  "log c w = w\<lparr>trace := trace w @ [c]\<rparr>"

subsection \<open>The task table\<close>

text \<open>
  One call of \<^verbatim>\<open>table.scan()\<close> reads a single page: the items of the table in scan
  order for as long as the data read stays within 1 MB, the size of an item being the
  lengths of its attribute names and values. The handlers call it once and never follow
  \<^verbatim>\<open>LastEvaluatedKey\<close>, so the page is all they see. With
  \<^verbatim>\<open>FilterExpression='assignedTo = :user_sub'\<close> the service filters the page after
  reading it and returns the items whose \<^verbatim>\<open>assignedTo\<close> attribute exists and equals
  the value.
\<close>

definition item_size :: "dict \<Rightarrow> nat" where
  "item_size t = sum_list (map (\<lambda>kv. length (fst kv) + length (snd kv)) t)"

definition scan_page_bytes :: nat where
  "scan_page_bytes = 1048576"

fun first_page :: "nat \<Rightarrow> dict list \<Rightarrow> dict list" where
  "first_page budget [] = []"
| "first_page budget (t # ts) =
     (if item_size t \<le> budget then t # first_page (budget - item_size t) ts else [])"

definition scan :: "world \<Rightarrow> dict list \<times> world" where
  "scan w = (first_page scan_page_bytes (tasks w), log (DdbScan None) w)"

fun assigned_items :: "string \<Rightarrow> dict list \<Rightarrow> dict list" where
  "assigned_items v [] = []"
| "assigned_items v (t # ts) =
     (if dget t ''assignedTo'' = Some v then t # assigned_items v ts
      else assigned_items v ts)"

definition scan_filter :: "string \<Rightarrow> world \<Rightarrow> dict list \<times> world" where
  "scan_filter v w =
     (assigned_items v (first_page scan_page_bytes (tasks w)), log (DdbScan (Some v)) w)"

text \<open>\<^verbatim>\<open>table.get_item(Key={'taskId': k}).get('Item')\<close>.\<close>

definition get_item :: "env \<Rightarrow> string \<Rightarrow> world \<Rightarrow> (exn + dict option) \<times> world" where
  "get_item e k w =
     (case get_item_raises e of
        Some x \<Rightarrow> (Inl x, log (DdbGetItem k) w)
      | None \<Rightarrow> (Inr (find (\<lambda>t. dget t ''taskId'' = Some k) (tasks w)), log (DdbGetItem k) w))"

text \<open>
  \<^verbatim>\<open>table.put_item(Item=it)\<close>: the item replaces the one stored under its key, or is
  added. An item without the key attribute is rejected by the service.
\<close>

fun upsert :: "string \<Rightarrow> dict \<Rightarrow> dict list \<Rightarrow> dict list" where
  "upsert k it [] = [it]"
| "upsert k it (t # ts) =
     (if dget t ''taskId'' = Some k then it # ts else t # upsert k it ts)"

definition put_item :: "env \<Rightarrow> dict \<Rightarrow> world \<Rightarrow> (exn + unit) \<times> world" where
  "put_item e it w =
     (case put_item_raises e of
        Some x \<Rightarrow> (Inl x, log (DdbPutItem it) w)
      | None \<Rightarrow>
          (case dget it ''taskId'' of
             None \<Rightarrow> (Inl (ClientError ''ValidationException''), log (DdbPutItem it) w)
           | Some k \<Rightarrow> (Inr (), (log (DdbPutItem it) w)\<lparr>tasks := upsert k it (tasks w)\<rparr>)))"

section \<open>Responses\<close>

text \<open>
  A response is the dictionary a handler returns. Its body is kept as the value handed to
  \<^verbatim>\<open>json.dumps\<close>; \<^verbatim>\<open>headers\<close> is \<^verbatim>\<open>None\<close> while the key is absent.
\<close>

record user_view =
  username :: string
  attributes :: dict
  enabled :: bool
  userStatus :: string
  groups :: "string list"

datatype payload =
    MessageBody string
  | ErrorBody string
  | Items "dict list"
  | Item dict
  | UpdatedTask string dict
  | UserList "user_view list"
  | AlertsSent "string list"

record response =
  statusCode :: nat
  headers :: "dict option"
  body :: payload

definition reply :: "nat \<Rightarrow> payload \<Rightarrow> response" where
  "reply c b = \<lparr>statusCode = c, headers = None, body = b\<rparr>"

definition DEFAULT_CORS_HEADERS :: dict where
  "DEFAULT_CORS_HEADERS =
     [(''Access-Control-Allow-Origin'', ''*''),
      (''Access-Control-Allow-Headers'',
       ''Content-Type,X-Amz-Date,Authorization,X-Api-Key,X-Amz-Security-Token''),
      (''Access-Control-Allow-Methods'', ''GET,POST,PUT,OPTIONS'')]"

section \<open>The task handler\<close>

subsection \<open>\<^verbatim>\<open>list_tasks\<close>\<close>

definition list_tasks :: "string \<Rightarrow> string \<Rightarrow> string list \<Rightarrow> world \<Rightarrow> response \<times> world" where
  "list_tasks requesting_username requesting_user_sub grps w =
     (let is_admin = ''admin'' \<in> set grps;
          r = (if is_admin then scan w else scan_filter requesting_user_sub w)
      in (reply 200 (Items (fst r)), snd r))"

subsection \<open>The user pool as the task handler reads it\<close>

text \<open>
  \<^verbatim>\<open>cognito_client.list_users\<close>, without a filter or with
  \<^verbatim>\<open>Filter='sub = "..."'\<close>, and \<^verbatim>\<open>admin_get_user\<close>.
\<close>

definition list_users :: "env \<Rightarrow> string option \<Rightarrow> world \<Rightarrow> (exn + cognito_user list) \<times> world" where
  "list_users e flt w =
     (case list_users_raises e of
        Some x \<Rightarrow> (Inl x, log (ListUsers flt) w)
      | None \<Rightarrow>
          (Inr (case flt of
                  None \<Rightarrow> users w
                | Some s \<Rightarrow> filter (\<lambda>u. dget (Attributes u) ''sub'' = Some s) (users w)),
           log (ListUsers flt) w))"

definition admin_get_user :: "env \<Rightarrow> string \<Rightarrow> world \<Rightarrow> (exn + cognito_user) \<times> world" where
  "admin_get_user e name w =
     (case admin_get_user_raises e of
        Some x \<Rightarrow> (Inl x, log (AdminGetUser name) w)
      | None \<Rightarrow>
          (case find (\<lambda>u. Username u = name) (users w) of
             None \<Rightarrow> (Inl (ClientError ''UserNotFoundException''), log (AdminGetUser name) w)
           | Some u \<Rightarrow> (Inr u, log (AdminGetUser name) w)))"

subsection \<open>\<^verbatim>\<open>notifications.py\<close>\<close>

text \<open>
  The module creates \<^verbatim>\<open>ses_client\<close>, \<^verbatim>\<open>sns_client\<close> and
  \<^verbatim>\<open>cognito_client\<close> only when the matching environment variable is set and
  non-empty; otherwise the client is \<^verbatim>\<open>None\<close>.
\<close>

definition ses_client :: "env \<Rightarrow> bool" where
  "ses_client e = truthy (SENDER_EMAIL_ADDRESS e)"

definition sns_client :: "env \<Rightarrow> bool" where
  "sns_client e = truthy (NOTIFICATION_TOPIC_ARN e)"

definition cognito_client :: "env \<Rightarrow> bool" where
  "cognito_client e = truthy (USER_POOL_ID e)"

definition quote :: string where
  "quote = [CHR 0x27]"

definition newline :: string where
  "newline = [CHR 0x0A]"

definition assignment_text :: "string \<Rightarrow> string \<Rightarrow> string \<Rightarrow> string" where
  "assignment_text assignee_username task_description task_deadline =
     ''Hello '' @ (if assignee_username \<noteq> [] then assignee_username else ''User'') @ '','' @
     newline @ newline @
     ''A new task '' @ quote @ task_description @ quote @ '' has been assigned to you.'' @
     newline @ ''Deadline: '' @ task_deadline @ newline @ newline @ ''Thank you.''"

definition send_task_assignment_email ::
  "env \<Rightarrow> string \<Rightarrow> string \<Rightarrow> string \<Rightarrow> string \<Rightarrow> world \<Rightarrow> bool \<times> world" where
  "send_task_assignment_email e recipient_email task_description task_deadline assignee_username w =
     (if \<not> ses_client e then (False, w)
      else if recipient_email = [] then (False, w)
      else
        (case send_email_raises e of
           Some x \<Rightarrow> (False, log (SesSendEmail recipient_email) w)
         | None \<Rightarrow>
             (True,
              (log (SesSendEmail recipient_email) w)
                \<lparr>outbox := outbox w @
                   [Email (str_of (SENDER_EMAIL_ADDRESS e)) recipient_email
                      ''New Task Assigned to You''
                      (assignment_text assignee_username task_description task_deadline)]\<rparr>)))"

text \<open>
  The sentence about the assignee that \<^verbatim>\<open>send_status_update_notification\<close> appends to
  the message: with the friendly name when the pool lookup works, with the raw identifier
  when it raises or the pool is not configured, nothing when the task has no assignee.
\<close>

definition assignee_sentence :: "env \<Rightarrow> string option \<Rightarrow> world \<Rightarrow> string \<times> world" where
  "assignee_sentence e assigned_to_sub_of_task w =
     (case assigned_to_sub_of_task of
        None \<Rightarrow> ([], w)
      | Some s \<Rightarrow>
          if s = [] then ([], w)
          else if cognito_client e then
            (case admin_get_user e s w of
               (Inl x, w1) \<Rightarrow> ('' Task is assigned to sub: '' @ s @ ''.'', w1)
             | (Inr u, w1) \<Rightarrow>
                 ('' Task is assigned to: '' @
                    (case dget (Attributes u) ''preferred_username'' of
                       None \<Rightarrow> s
                     | Some n \<Rightarrow> n) @
                    '' (sub: '' @ s @ '').'', w1))
          else ('' Task is assigned to sub: '' @ s @ ''.'', w))"

definition send_status_update_notification ::
  "env \<Rightarrow> string \<Rightarrow> string \<Rightarrow> string option \<Rightarrow> string \<Rightarrow> string \<Rightarrow> string option \<Rightarrow> world
    \<Rightarrow> bool \<times> world" where
  "send_status_update_notification e task_id task_description old_status new_status
       updated_by_username assigned_to_sub_of_task w =
     (if \<not> sns_client e then (False, w)
      else
        let sns_message_subject = ''Task Status Updated: '' @ take 50 task_description;
            head = ''Task Update: '' @ quote @ task_description @ quote @ '' (ID: '' @ task_id @
                   '') status changed from '' @ quote @ fmt old_status @ quote @ '' to '' @
                   quote @ new_status @ quote @ '' by user '' @ updated_by_username @ ''.'';
            a = assignee_sentence e assigned_to_sub_of_task w;
            sns_message_body = head @ fst a;
            w1 = log (SnsPublish sns_message_body) (snd a)
        in
          (case publish_raises e of
             Some x \<Rightarrow> (False, w1)
           | None \<Rightarrow>
               (True,
                w1\<lparr>outbox := outbox w1 @
                     [Notification (str_of (NOTIFICATION_TOPIC_ARN e)) (Some sns_message_subject)
                        sns_message_body]\<rparr>)))"

subsection \<open>\<^verbatim>\<open>create_task\<close>\<close>

definition create_task ::
  "env \<Rightarrow> dict \<Rightarrow> string \<Rightarrow> string list \<Rightarrow> world \<Rightarrow> (exn + response) \<times> world" where
  "create_task e data created_by_username grps w =
     (if ''admin'' \<notin> set grps then
        (Inr (reply 403 (ErrorBody ''Unauthorized. Only admins can create tasks.'')), w)
      else
        (case dget data ''assignedTo'' of
           None \<Rightarrow> (Inr (reply 400 (ErrorBody ''assignedTo (user sub) is required'')), w)
         | Some assigned_to_sub \<Rightarrow>
             if assigned_to_sub = [] then
               (Inr (reply 400 (ErrorBody ''assignedTo (user sub) is required'')), w)
             else
               (case list_users e (Some assigned_to_sub) w of
                  (Inl (ClientError m), w1) \<Rightarrow>
                    (Inr (reply 500 (ErrorBody (''Error verifying assigned user: '' @ m))), w1)
                | (Inl x, w1) \<Rightarrow>
                    (Inr (reply 500
                       (ErrorBody (''Unexpected error verifying assigned user: '' @ exn_text x))), w1)
                | (Inr [user_profile], w1) \<Rightarrow>
                    let actual_username_for_task = Username user_profile;
                        user_email = dget (Attributes user_profile) ''email''
                    in
                      if \<not> truthy user_email then
                        (Inr (reply 400
                           (ErrorBody (''Assigned user (sub: '' @ assigned_to_sub @
                              '') does not have an email address.''))), w1)
                      else
                        (case subscript data ''deadline'' of
                           Inl x \<Rightarrow> (Inl x, w1)
                         | Inr deadline \<Rightarrow>
                             (case subscript data ''description'' of
                                Inl x \<Rightarrow> (Inl x, w1)
                              | Inr description \<Rightarrow>
                                  let item =
                                        [(''taskId'', uuid4 e),
                                         (''assignedTo'', assigned_to_sub),
                                         (''status'', ''New''),
                                         (''deadline'', deadline),
                                         (''description'', description),
                                         (''createdBy'', created_by_username),
                                         (''createdAt'', clock1 e),
                                         (''updatedAt'', clock2 e)]
                                  in
                                    (case put_item e item w1 of
                                       (Inl x, w2) \<Rightarrow>
                                         (Inr (reply 500
                                            (ErrorBody ''Could not create task in database.'')), w2)
                                     | (Inr u, w2) \<Rightarrow>
                                         (Inr (reply 201 (Item item)),
                                          if truthy user_email then
                                            snd (send_task_assignment_email e (str_of user_email)
                                                   description deadline actual_username_for_task w2)
                                          else w2))))
                | (Inr us, w1) \<Rightarrow>
                    (Inr (reply 404
                       (ErrorBody (''Assigned user (sub: '' @ assigned_to_sub @ '') not found.''))),
                     w1))))"

subsection \<open>\<^verbatim>\<open>update_task\<close>\<close>

definition update_task ::
  "env \<Rightarrow> dict \<Rightarrow> string \<Rightarrow> string \<Rightarrow> string list \<Rightarrow> world \<Rightarrow> (exn + response) \<times> world" where
  "update_task e data updated_by_username updated_by_sub grps w =
     (let task_id = dget data ''taskId'';
          new_status = dget data ''status''
      in
        if \<not> (truthy task_id \<and> truthy new_status) then
          (Inr (reply 400 (ErrorBody ''taskId and status are required'')), w)
        else
          (case get_item e (str_of task_id) w of
             (Inl x, w1) \<Rightarrow> (Inr (reply 500 (ErrorBody ''Could not retrieve task'')), w1)
           | (Inr None, w1) \<Rightarrow> (Inr (reply 404 (ErrorBody ''Task not found'')), w1)
           | (Inr (Some current_task), w1) \<Rightarrow>
               if current_task = [] then (Inr (reply 404 (ErrorBody ''Task not found'')), w1)
               else
                 let is_admin = ''admin'' \<in> set grps;
                     assigned_to_sub_of_task = dget current_task ''assignedTo''
                 in
                   if \<not> is_admin \<and> assigned_to_sub_of_task \<noteq> Some updated_by_sub then
                     (Inr (reply 403
                        (ErrorBody ''Unauthorized. You can only update tasks assigned to you.'')), w1)
                   else
                     let old_status = dget current_task ''status'';
                         updated = dset (dset current_task ''status'' (str_of new_status))
                                     ''updatedAt'' (clock1 e)
                     in
                       (case put_item e updated w1 of
                          (Inl x, w2) \<Rightarrow> (Inr (reply 500 (ErrorBody ''Could not update task'')), w2)
                        | (Inr u, w2) \<Rightarrow>
                            if new_status \<noteq> old_status then
                              (case subscript updated ''description'' of
                                 Inl x \<Rightarrow> (Inl x, w2)
                               | Inr task_description \<Rightarrow>
                                   (Inr (reply 200
                                      (UpdatedTask ''Task updated successfully'' updated)),
                                    snd (send_status_update_notification e (str_of task_id)
                                           task_description old_status (str_of new_status)
                                           updated_by_username assigned_to_sub_of_task w2)))
                            else
                              (Inr (reply 200
                                 (UpdatedTask ''Task updated successfully'' updated)), w2))))"

subsection \<open>\<^verbatim>\<open>handler\<close> of the task function\<close>

text \<open>
  The event is the one the gateway builds: the HTTP method, the claims the authorizer
  attached (\<^verbatim>\<open>cognito:username\<close>, \<^verbatim>\<open>sub\<close> and, when the caller is in a group,
  \<^verbatim>\<open>cognito:groups\<close>) and the parsed body.
\<close>

record event =
  httpMethod :: string
  claim_username :: string
  claim_sub :: string
  claim_groups :: "string list option"
  request_body :: dict

definition with_cors :: "response \<Rightarrow> response" where
  "with_cors r =
     r\<lparr>headers := Some (dict_update (case headers r of None \<Rightarrow> [] | Some h \<Rightarrow> h)
                          DEFAULT_CORS_HEADERS)\<rparr>"

definition task_handler :: "env \<Rightarrow> event \<Rightarrow> world \<Rightarrow> (exn + response) \<times> world" where
  "task_handler e ev w =
     (if httpMethod ev = ''OPTIONS'' then
        (Inr \<lparr>statusCode = 200, headers = Some DEFAULT_CORS_HEADERS,
              body = MessageBody ''CORS preflight successful''\<rparr>, w)
      else
        let uname = claim_username ev;
            usub = claim_sub ev;
            grps = (case claim_groups ev of None \<Rightarrow> [] | Some g \<Rightarrow> g);
            r = (if httpMethod ev = ''GET'' then
                   (Inr (fst (list_tasks uname usub grps w)), snd (list_tasks uname usub grps w))
                 else if httpMethod ev = ''POST'' then
                   create_task e (request_body ev) uname grps w
                 else if httpMethod ev = ''PUT'' then
                   update_task e (request_body ev) uname usub grps w
                 else (Inr (reply 405 (ErrorBody ''Method Not Allowed'')), w))
        in
          (case fst r of
             Inl x \<Rightarrow> (Inl x, snd r)
           | Inr resp \<Rightarrow> (Inr (with_cors resp), snd r)))"

section \<open>The user handler\<close>

subsection \<open>The user pool as the user handler writes and reads it\<close>





subsection \<open>\<^verbatim>\<open>handler\<close> of the user function\<close>










section \<open>The deadline scanner\<close>

text \<open>
  The module binds \<^verbatim>\<open>datetime\<close> to the class (\<^verbatim>\<open>from datetime import datetime,
  timedelta\<close>), so \<^verbatim>\<open>datetime.UTC\<close> in the handler is an attribute lookup on the class
  \<^verbatim>\<open>datetime.datetime\<close>. These are the names that class has (Python 3.12, the runtime
  the stack sets); \<^verbatim>\<open>UTC\<close> is a name of the module, not of the class.
\<close>

definition datetime_class_names :: "string list" where
  "datetime_class_names =
     [''min'', ''max'', ''resolution'', ''year'', ''month'', ''day'', ''hour'', ''minute'',
      ''second'', ''microsecond'', ''tzinfo'', ''fold'', ''today'', ''now'', ''utcnow'',
      ''fromtimestamp'', ''utcfromtimestamp'', ''fromordinal'', ''combine'', ''fromisoformat'',
      ''fromisocalendar'', ''strptime'', ''date'', ''time'', ''timetz'', ''replace'',
      ''astimezone'', ''utcoffset'', ''dst'', ''tzname'', ''timetuple'', ''utctimetuple'',
      ''toordinal'', ''timestamp'', ''weekday'', ''isoweekday'', ''isocalendar'', ''isoformat'',
      ''ctime'', ''strftime'']"

definition datetime_getattr :: "string \<Rightarrow> exn + string" where
  "datetime_getattr a =
     (if a \<in> set datetime_class_names then Inr a
      else Inl (AttributeError
             (''type object '' @ quote @ ''datetime.datetime'' @ quote @
              '' has no attribute '' @ quote @ a @ quote)))"

text \<open>
  The loop over the scanned items (lines 24 to 28). \<^verbatim>\<open>soon\<close> is the ISO-8601 text of
  the invocation time plus one hour; the comparison with the deadline is the
  lexicographic order of strings.
\<close>

fun check_tasks ::
  "env \<Rightarrow> string \<Rightarrow> string \<Rightarrow> dict list \<Rightarrow> string list \<Rightarrow> world \<Rightarrow> (exn + string list) \<times> world" where
  "check_tasks e topic soon [] alerts w = (Inr alerts, w)"
| "check_tasks e topic soon (task # ts) alerts w =
     (case subscript task ''status'' of
        Inl x \<Rightarrow> (Inl x, w)
      | Inr st \<Rightarrow>
          if st = ''Completed'' then check_tasks e topic soon ts alerts w
          else
            (case subscript task ''deadline'' of
               Inl x \<Rightarrow> (Inl x, w)
             | Inr dl \<Rightarrow>
                 if \<not> dl \<le> soon then check_tasks e topic soon ts alerts w
                 else
                   (case subscript task ''description'' of
                      Inl x \<Rightarrow> (Inl x, w)
                    | Inr d \<Rightarrow>
                        (case subscript task ''assignedTo'' of
                           Inl x \<Rightarrow> (Inl x, w)
                         | Inr a \<Rightarrow>
                             let msg = ''Task '' @ quote @ d @ quote @ '' assigned to '' @ a @
                                       '' is nearing its deadline.''
                             in
                               (case publish_raises e of
                                  Some x \<Rightarrow> (Inl x, log (SnsPublish msg) w)
                                | None \<Rightarrow>
                                    check_tasks e topic soon ts (alerts @ [msg])
                                      ((log (SnsPublish msg) w)
                                         \<lparr>outbox := outbox w @ [Notification topic None msg]\<rparr>))))))"

text \<open>
  \<^verbatim>\<open>handler\<close> of the deadline function. \<^verbatim>\<open>TOPIC_ARN\<close> is the module constant read
  from the environment at import; \<^verbatim>\<open>soon\<close> stands for what lines 18 and 19 would compute
  from the clock once \<^verbatim>\<open>datetime.UTC\<close> has been found.
\<close>

definition deadline_handler ::
  "env \<Rightarrow> string \<Rightarrow> string \<Rightarrow> world \<Rightarrow> (exn + response) \<times> world" where
  "deadline_handler e TOPIC_ARN soon w =
     (case datetime_getattr ''UTC'' of
        Inl x \<Rightarrow> (Inl x, w)
      | Inr utc \<Rightarrow>
          (case check_tasks e TOPIC_ARN soon (fst (scan w)) [] (snd (scan w)) of
             (Inl x, w1) \<Rightarrow> (Inl x, w1)
           | (Inr alerts, w1) \<Rightarrow> (Inr (reply 200 (AlertsSent alerts)), w1)))"

text \<open>
  What the scanner is meant to do, in the words of the header comment of the module: a
  task is due when its status is not \<^verbatim>\<open>Completed\<close> and its deadline is at most
  \<^verbatim>\<open>soon\<close>; the alert names its description and assignee. \<open>has_fields\<close> says that a
  record has the four attributes the loop subscripts.
\<close>

definition has_fields :: "dict \<Rightarrow> bool" where
  "has_fields t =
     (dget t ''status'' \<noteq> None \<and> dget t ''deadline'' \<noteq> None \<and>
      dget t ''description'' \<noteq> None \<and> dget t ''assignedTo'' \<noteq> None)"

definition due :: "string \<Rightarrow> dict \<Rightarrow> bool" where
  "due soon t =
     (dget t ''status'' \<noteq> Some ''Completed'' \<and> str_of (dget t ''deadline'') \<le> soon)"

definition alert_text :: "dict \<Rightarrow> string" where
  "alert_text t =
     ''Task '' @ quote @ str_of (dget t ''description'') @ quote @ '' assigned to '' @
     str_of (dget t ''assignedTo'') @ '' is nearing its deadline.''"

section \<open>Concrete inputs\<close>

text \<open>
  A small deployment used to run the handlers: two tasks for Alice (\<^verbatim>\<open>u1\<close>), one of them
  completed, one task for Bob (\<^verbatim>\<open>u2\<close>), both known to the user pool with an email
  address, both channels configured and every service call going through.
\<close>

definition task1 :: dict where
  "task1 =
     [(''taskId'', ''t1''), (''assignedTo'', ''u1''), (''status'', ''New''),
      (''deadline'', ''2025-12-24T10:30:00+00:00''), (''description'', ''Wrap gifts''),
      (''createdBy'', ''root''), (''createdAt'', ''2025-12-01T09:00:00+00:00''),
      (''updatedAt'', ''2025-12-01T09:00:00+00:00'')]"

definition task2 :: dict where
  "task2 =
     [(''taskId'', ''t2''), (''assignedTo'', ''u2''), (''status'', ''New''),
      (''deadline'', ''2025-12-24T12:00:00+00:00''), (''description'', ''Bake cookies''),
      (''createdBy'', ''root''), (''createdAt'', ''2025-12-02T09:00:00+00:00''),
      (''updatedAt'', ''2025-12-02T09:00:00+00:00'')]"

definition task3 :: dict where
  "task3 =
     [(''taskId'', ''t3''), (''assignedTo'', ''u1''), (''status'', ''Completed''),
      (''deadline'', ''2025-12-24T10:30:00+00:00''), (''description'', ''Buy tree''),
      (''createdBy'', ''root''), (''createdAt'', ''2025-12-03T09:00:00+00:00''),
      (''updatedAt'', ''2025-12-05T09:00:00+00:00'')]"

definition alice :: cognito_user where
  "alice =
     \<lparr>Username = ''alice'',
      Attributes = [(''sub'', ''u1''), (''email'', ''alice@example.com'')],
      Enabled = True, UserStatus = ''CONFIRMED'', Groups = [''member'']\<rparr>"

definition bob :: cognito_user where
  "bob =
     \<lparr>Username = ''bob'',
      Attributes = [(''sub'', ''u2''), (''email'', ''bob@example.com'')],
      Enabled = True, UserStatus = ''CONFIRMED'', Groups = [''member'']\<rparr>"

definition world0 :: world where
  "world0 = \<lparr>tasks = [task1, task2, task3], users = [alice, bob], trace = [], outbox = []\<rparr>"

definition env0 :: env where
  "env0 =
     \<lparr>SENDER_EMAIL_ADDRESS = Some ''tasks@example.com'',
      NOTIFICATION_TOPIC_ARN = Some ''arn:aws:sns:eu-west-1:1:TaskNotifications'',
      USER_POOL_ID = Some ''pool-1'',
      clock1 = ''2025-12-24T10:00:00.000001+00:00'',
      clock2 = ''2025-12-24T10:00:00.000002+00:00'',
      uuid4 = ''t9'',
      list_users_raises = None,
      admin_get_user_raises = None,
      get_item_raises = None,
      put_item_raises = None,
      send_email_raises = None,
      publish_raises = None,
      admin_create_user_raises = None,
      admin_add_user_to_group_raises = None,
      admin_list_groups_raises = None\<rparr>"

text \<open>A request with the given method, caller and body.\<close>

definition request :: "string \<Rightarrow> string \<Rightarrow> string \<Rightarrow> string list \<Rightarrow> dict \<Rightarrow> event" where
  "request m uname usub grps b =
     \<lparr>httpMethod = m, claim_username = uname, claim_sub = usub, claim_groups = Some grps,
      request_body = b\<rparr>"

text \<open>
  The environment with other settings for the two notification channels: the sender
  address and whether sending an email raises, the topic and whether publishing raises.
\<close>

definition with_channels ::
  "env \<Rightarrow> string option \<Rightarrow> exn option \<Rightarrow> string option \<Rightarrow> exn option \<Rightarrow> env" where
  "with_channels e sender ses_error topic sns_error =
     e\<lparr>SENDER_EMAIL_ADDRESS := sender, send_email_raises := ses_error,
       NOTIFICATION_TOPIC_ARN := topic, publish_raises := sns_error\<rparr>"

text \<open>A request that marks the first task done, and the record it should leave.\<close>

definition done_t1 :: dict where
  "done_t1 = [(''taskId'', ''t1''), (''status'', ''Done'')]"

definition task1_done :: dict where
  "task1_done =
     [(''taskId'', ''t1''), (''assignedTo'', ''u1''), (''status'', ''Done''),
      (''deadline'', ''2025-12-24T10:30:00+00:00''), (''description'', ''Wrap gifts''),
      (''createdBy'', ''root''), (''createdAt'', ''2025-12-01T09:00:00+00:00''),
      (''updatedAt'', ''2025-12-24T10:00:00.000001+00:00'')]"

text \<open>
  A create request for Alice with the record it should store, and the request that creates
  the user Carol with the identity the pool should hold afterwards.
\<close>

definition new_task :: dict where
  "new_task =
     [(''assignedTo'', ''u1''), (''deadline'', ''2025-12-25T00:00:00+00:00''),
      (''description'', ''Feed reindeer'')]"

definition task9 :: dict where
  "task9 =
     [(''taskId'', ''t9''), (''assignedTo'', ''u1''), (''status'', ''New''),
      (''deadline'', ''2025-12-25T00:00:00+00:00''), (''description'', ''Feed reindeer''),
      (''createdBy'', ''root''), (''createdAt'', ''2025-12-24T10:00:00.000001+00:00''),
      (''updatedAt'', ''2025-12-24T10:00:00.000002+00:00'')]"






section \<open>Properties\<close>


lemma cors_merge_empty: "dict_update [] DEFAULT_CORS_HEADERS = DEFAULT_CORS_HEADERS"
  by (simp add: dict_update_def DEFAULT_CORS_HEADERS_def)

subsection \<open>Listing tasks\<close>









subsection \<open>Methods the task handler does not serve\<close>

text \<open>
  Claim C10. For every request whose method is none of OPTIONS, GET, POST and PUT, the task
  handler answers 405 with the error \<^verbatim>\<open>Method Not Allowed\<close> and the fixed cross-origin
  headers, and the world is the one it started from: no call to the task table (or to any
  other service) is recorded and no item changes.
\<close>

theorem method_not_allowed:
  assumes "httpMethod ev \<noteq> ''OPTIONS''" and "httpMethod ev \<noteq> ''GET''"
    and "httpMethod ev \<noteq> ''POST''" and "httpMethod ev \<noteq> ''PUT''"
  shows "task_handler e ev w =
           (Inr \<lparr>statusCode = 405, headers = Some DEFAULT_CORS_HEADERS,
                 body = ErrorBody ''Method Not Allowed''\<rparr>, w)"
  using assms by (simp add: task_handler_def with_cors_def reply_def cors_merge_empty)

theorem method_not_allowed_witness:
  "httpMethod (request ''DELETE'' ''bob'' ''u2'' [''member''] [])
     \<notin> {''OPTIONS'', ''GET'', ''POST'', ''PUT''} \<and>
   task_handler env0 (request ''DELETE'' ''bob'' ''u2'' [''member''] []) world0 =
     (Inr \<lparr>statusCode = 405, headers = Some DEFAULT_CORS_HEADERS,
           body = ErrorBody ''Method Not Allowed''\<rparr>, world0)"
  using method_not_allowed [of "request ''DELETE'' ''bob'' ''u2'' [''member''] []" env0 world0]
  by (simp add: request_def)

subsection \<open>The deadline scanner\<close>

text \<open>
  Claim C4 says that every invocation of the scanner publishes one alert for each record
  that is not completed and due within the hour, and returns the list of alerts. The
  handler never gets that far: its first statement looks \<^verbatim>\<open>UTC\<close> up on the class
  \<^verbatim>\<open>datetime.datetime\<close>, which has no such attribute, so every invocation ends with
  \<^verbatim>\<open>AttributeError\<close> before the table is scanned, whatever the table holds. Nothing is
  published and no summary is returned.
\<close>

theorem deadline_handler_raises:
  "deadline_handler e TOPIC_ARN soon w =
     (Inl (AttributeError
        (''type object '' @ quote @ ''datetime.datetime'' @ quote @ '' has no attribute '' @
         quote @ ''UTC'' @ quote)), w)"
  by (simp add: deadline_handler_def datetime_getattr_def datetime_class_names_def)

text \<open>
  The loop below that statement is sound: run on records that have the four attributes,
  with a topic that accepts messages, it publishes one alert for each due record, in table
  order, and none for any other. The defect is confined to the lookup of \<^verbatim>\<open>UTC\<close>.
\<close>

lemma check_tasks_alerts:
  assumes "publish_raises e = None" and "list_all has_fields ts"
  shows "fst (check_tasks e topic soon ts alerts w) =
           Inr (alerts @ map alert_text (filter (due soon) ts)) \<and>
         outbox (snd (check_tasks e topic soon ts alerts w)) =
           outbox w @ map (\<lambda>t. Notification topic None (alert_text t)) (filter (due soon) ts)"
  using assms(2)
proof (induction ts arbitrary: alerts w)
  case Nil
  then show ?case by simp
next
  case (Cons t ts)
  then show ?case
    using assms(1)
    by (auto simp: has_fields_def due_def alert_text_def subscript_def dget_def str_of_def
        log_def Let_def)
qed

subsection \<open>Creating a task without a required field\<close>

text \<open>
  Claim C3 says that a create request of an administrator that lacks \<^verbatim>\<open>assignedTo\<close>,
  \<^verbatim>\<open>deadline\<close> or \<^verbatim>\<open>description\<close> is answered with 400 and writes nothing. Only
  \<^verbatim>\<open>assignedTo\<close> is checked. A body without \<^verbatim>\<open>deadline\<close> for a known assignee with
  an email address reaches \<^verbatim>\<open>data['deadline']\<close>, which raises \<^verbatim>\<open>KeyError\<close>
  outside every \<^verbatim>\<open>try\<close>: the handler returns no response at all. The only service call
  made is the user lookup, so nothing is written.
\<close>

theorem create_task_without_deadline:
  "create_task env0 [(''assignedTo'', ''u1''), (''description'', ''Wrap gifts'')] ''root''
     [''admin''] world0 =
   (Inl (KeyError ''deadline''), log (ListUsers (Some ''u1'')) world0)"
  by (simp add: create_task_def list_users_def env0_def world0_def alice_def bob_def dget_def
      truthy_def subscript_def)

subsection \<open>Creating a task for an assignee the directory does not single out\<close>

lemma snd_list_users: "snd (list_users e flt w) = log (ListUsers flt) w"
  by (simp add: list_users_def split: option.splits)

text \<open>
  Claim C5. For every create request of an administrator whose \<^verbatim>\<open>assignedTo\<close> is present
  (a non-empty string, the test of the source being \<^verbatim>\<open>not assigned_to_sub\<close>): if the
  directory lookup for that identifier returns no match or more than one, the answer is 404
  and no record is written. The only service call of the invocation is the lookup, so the
  table holds what it held.
\<close>

theorem create_task_assignee_not_unique:
  assumes "''admin'' \<in> set grps"
    and "dget data ''assignedTo'' = Some s" and "s \<noteq> []"
    and "fst (list_users e (Some s) w) = Inr us" and "length us \<noteq> 1"
  shows "create_task e data creator grps w =
           (Inr (reply 404 (ErrorBody (''Assigned user (sub: '' @ s @ '') not found.''))),
            log (ListUsers (Some s)) w) \<and>
         tasks (snd (create_task e data creator grps w)) = tasks w \<and>
         trace (snd (create_task e data creator grps w)) = trace w @ [ListUsers (Some s)]"
proof -
  have lu: "list_users e (Some s) w = (Inr us, log (ListUsers (Some s)) w)"
    using assms(4) snd_list_users [of e "Some s" w] by (cases "list_users e (Some s) w") simp
  have "create_task e data creator grps w =
           (Inr (reply 404 (ErrorBody (''Assigned user (sub: '' @ s @ '') not found.''))),
            log (ListUsers (Some s)) w)"
    using assms(1,2,3,5) by (auto simp: create_task_def lu split: list.splits)
  then show ?thesis by (simp add: log_def)
qed

theorem create_task_assignee_not_unique_witness:
  "''admin'' \<in> set [''admin''] \<and>
   fst (list_users env0 (Some ''u7'') world0) = Inr [] \<and>
   create_task env0 [(''assignedTo'', ''u7''), (''deadline'', ''2025-12-25T00:00:00+00:00''),
       (''description'', ''Feed reindeer'')] ''root'' [''admin''] world0 =
     (Inr (reply 404 (ErrorBody ''Assigned user (sub: u7) not found.'')),
      log (ListUsers (Some ''u7'')) world0) \<and>
   tasks (log (ListUsers (Some ''u7'')) world0) = tasks world0"
proof -
  have l: "fst (list_users env0 (Some ''u7'') world0) = Inr []"
    by (simp add: list_users_def env0_def world0_def alice_def bob_def dget_def)
  show ?thesis
    using l create_task_assignee_not_unique [of "[''admin'']"
        "[(''assignedTo'', ''u7''), (''deadline'', ''2025-12-25T00:00:00+00:00''),
          (''description'', ''Feed reindeer'')]" "''u7''" env0 world0 "[]" "''root''"]
    by (simp add: dget_def log_def)
qed

subsection \<open>Updating a task of somebody else\<close>

lemma find_key_nonempty:
  "find (\<lambda>t. dget t ''taskId'' = Some k) ts = Some cur \<Longrightarrow> dget cur ''taskId'' = Some k \<and> cur \<noteq> []"
  by (induction ts) (auto simp: dget_def split: if_splits)

text \<open>
  Claim C2, as amended. For every update request that carries a non-empty \<^verbatim>\<open>taskId\<close> and
  a non-empty \<^verbatim>\<open>status\<close> and whose \<^verbatim>\<open>taskId\<close> names a record the table returns:
  if the caller is not in the \<^verbatim>\<open>admin\<close> group and the caller's \<^verbatim>\<open>sub\<close> differs from
  the record's \<^verbatim>\<open>assignedTo\<close>, the answer is 403, the table is unchanged and the only
  call made to it is the read.
\<close>

theorem update_task_forbidden:
  assumes "dget data ''taskId'' = Some tid" and "tid \<noteq> []"
    and "dget data ''status'' = Some st" and "st \<noteq> []"
    and "fst (get_item e tid w) = Inr (Some cur)"
    and "''admin'' \<notin> set grps" and "dget cur ''assignedTo'' \<noteq> Some usub"
  shows "update_task e data uname usub grps w =
           (Inr (reply 403
              (ErrorBody ''Unauthorized. You can only update tasks assigned to you.'')),
            log (DdbGetItem tid) w) \<and>
         tasks (snd (update_task e data uname usub grps w)) = tasks w \<and>
         trace (snd (update_task e data uname usub grps w)) = trace w @ [DdbGetItem tid]"
proof -
  from assms(5) have g: "get_item e tid w = (Inr (Some cur), log (DdbGetItem tid) w)"
    and f: "find (\<lambda>t. dget t ''taskId'' = Some tid) (tasks w) = Some cur"
    by (auto simp: get_item_def split: option.splits)
  from f have ne: "cur \<noteq> []" using find_key_nonempty by blast
  have "update_task e data uname usub grps w =
           (Inr (reply 403
              (ErrorBody ''Unauthorized. You can only update tasks assigned to you.'')),
            log (DdbGetItem tid) w)"
    using assms(1-4,6,7) ne by (simp add: update_task_def Let_def truthy_def str_of_def g)
  then show ?thesis by (simp add: log_def)
qed

theorem update_task_forbidden_witness:
  "fst (get_item env0 ''t1'' world0) = Inr (Some task1) \<and>
   ''admin'' \<notin> set [''member''] \<and> dget task1 ''assignedTo'' \<noteq> Some ''u2'' \<and>
   update_task env0 [(''taskId'', ''t1''), (''status'', ''Done'')] ''bob'' ''u2'' [''member''] world0 =
     (Inr (reply 403 (ErrorBody ''Unauthorized. You can only update tasks assigned to you.'')),
      log (DdbGetItem ''t1'') world0)"
proof -
  have g: "fst (get_item env0 ''t1'' world0) = Inr (Some task1)"
    by (simp add: get_item_def env0_def world0_def task1_def dget_def)
  have a: "dget task1 ''assignedTo'' \<noteq> Some ''u2''"
    by (simp add: task1_def dget_def)
  show ?thesis
    using g a update_task_forbidden [of "[(''taskId'', ''t1''), (''status'', ''Done'')]" "''t1''"
        "''Done''" env0 world0 task1 "[''member'']" "''u2''" "''bob''"]
    by (simp add: dget_def)
qed

text \<open>
  The claim as stated, for every update request whose \<^verbatim>\<open>taskId\<close> names an existing record,
  fails for a request without \<^verbatim>\<open>status\<close>: the check of the required fields comes first
  and answers 400, also to a caller who is neither administrator nor assignee.
\<close>

theorem update_task_without_status:
  "fst (get_item env0 ''t1'' world0) = Inr (Some task1) \<and>
   ''admin'' \<notin> set [''member''] \<and> dget task1 ''assignedTo'' \<noteq> Some ''u2'' \<and>
   fst (update_task env0 [(''taskId'', ''t1'')] ''bob'' ''u2'' [''member''] world0) =
     Inr (reply 400 (ErrorBody ''taskId and status are required'')) \<and>
   statusCode (reply 400 (ErrorBody ''taskId and status are required'')) \<noteq> 403"
  by (simp add: get_item_def env0_def world0_def task1_def dget_def update_task_def truthy_def
      reply_def)

subsection \<open>Creating a user\<close>





subsection \<open>The paths through \<^verbatim>\<open>update_task\<close>\<close>

lemma find_upsert:
  "dget it ''taskId'' = Some k \<Longrightarrow> find (\<lambda>t. dget t ''taskId'' = Some k) (upsert k it ts) = Some it"
  by (induction ts) simp_all

lemma dget_dset: "dget (dset d k v) k' = (if k' = k then Some v else dget d k')"
  by (simp add: dget_def dset_def update_conv')

lemma assignee_sentence_keeps:
  "tasks (snd (assignee_sentence e a w)) = tasks w \<and>
   outbox (snd (assignee_sentence e a w)) = outbox w"
  by (simp add: assignee_sentence_def admin_get_user_def log_def
      split: option.splits prod.splits sum.splits)

lemma tasks_status_notification:
  "tasks (snd (send_status_update_notification e tid d old new by a w)) = tasks w"
  by (simp add: send_status_update_notification_def Let_def log_def assignee_sentence_keeps
      split: option.splits)

lemma outbox_status_notification:
  "outbox (snd (send_status_update_notification e tid d old new by a w)) =
     (if sns_client e \<and> publish_raises e = None then
        outbox w @
          [Notification (str_of (NOTIFICATION_TOPIC_ARN e))
             (Some (''Task Status Updated: '' @ take 50 d))
             (''Task Update: '' @ quote @ d @ quote @ '' (ID: '' @ tid @
               '') status changed from '' @ quote @ fmt old @ quote @ '' to '' @
               quote @ new @ quote @ '' by user '' @ by @ ''.'' @
               fst (assignee_sentence e a w))]
      else outbox w)"
  by (simp add: send_status_update_notification_def Let_def log_def assignee_sentence_keeps
      split: option.splits)

lemma update_task_bad_request:
  "\<not> (truthy (dget data ''taskId'') \<and> truthy (dget data ''status'')) \<Longrightarrow>
   update_task e data uname usub grps w =
     (Inr (reply 400 (ErrorBody ''taskId and status are required'')), w)"
  by (simp add: update_task_def Let_def)

lemma update_task_read_fails:
  assumes "dget data ''taskId'' = Some tid" "tid \<noteq> []" "dget data ''status'' = Some st" "st \<noteq> []"
    and "get_item_raises e = Some x"
  shows "update_task e data uname usub grps w =
     (Inr (reply 500 (ErrorBody ''Could not retrieve task'')), log (DdbGetItem tid) w)"
  using assms by (simp add: update_task_def Let_def truthy_def str_of_def get_item_def)

lemma update_task_missing:
  assumes "dget data ''taskId'' = Some tid" "tid \<noteq> []" "dget data ''status'' = Some st" "st \<noteq> []"
    and "get_item_raises e = None"
    and "find (\<lambda>t. dget t ''taskId'' = Some tid) (tasks w) = None"
  shows "update_task e data uname usub grps w =
     (Inr (reply 404 (ErrorBody ''Task not found'')), log (DdbGetItem tid) w)"
  using assms by (simp add: update_task_def Let_def truthy_def str_of_def get_item_def)


lemma find_key:
  "find (\<lambda>t. dget t ''taskId'' = Some k) ts = Some cur \<Longrightarrow> dget cur ''taskId'' = Some k"
  by (induction ts) (auto split: if_splits)

lemma update_task_denied:
  assumes "dget data ''taskId'' = Some tid" "tid \<noteq> []" "dget data ''status'' = Some st" "st \<noteq> []"
    and "get_item_raises e = None"
    and "find (\<lambda>t. dget t ''taskId'' = Some tid) (tasks w) = Some cur"
    and "''admin'' \<notin> set grps" and "dget cur ''assignedTo'' \<noteq> Some usub"
  shows "update_task e data uname usub grps w =
     (Inr (reply 403 (ErrorBody ''Unauthorized. You can only update tasks assigned to you.'')),
      log (DdbGetItem tid) w)"
proof -
  have "cur \<noteq> []" using find_key [OF assms(6)] by (auto simp: dget_def)
  then show ?thesis
    using assms by (simp add: update_task_def Let_def truthy_def str_of_def get_item_def)
qed

lemma update_task_write_fails:
  assumes "dget data ''taskId'' = Some tid" "tid \<noteq> []" "dget data ''status'' = Some st" "st \<noteq> []"
    and "get_item_raises e = None"
    and "find (\<lambda>t. dget t ''taskId'' = Some tid) (tasks w) = Some cur"
    and "''admin'' \<in> set grps \<or> dget cur ''assignedTo'' = Some usub"
    and "put_item_raises e = Some x"
  shows "fst (update_task e data uname usub grps w) =
           Inr (reply 500 (ErrorBody ''Could not update task''))"
proof -
  have "cur \<noteq> []" using find_key [OF assms(6)] by (auto simp: dget_def)
  then show ?thesis
    using assms
    by (auto simp: update_task_def Let_def truthy_def str_of_def get_item_def put_item_def)
qed

lemma update_task_written:
  assumes "dget data ''taskId'' = Some tid" "tid \<noteq> []" "dget data ''status'' = Some st" "st \<noteq> []"
    and "get_item_raises e = None"
    and "find (\<lambda>t. dget t ''taskId'' = Some tid) (tasks w) = Some cur"
    and "''admin'' \<in> set grps \<or> dget cur ''assignedTo'' = Some usub"
    and "put_item_raises e = None"
    and "updated = dset (dset cur ''status'' st) ''updatedAt'' (clock1 e)"
    and "w2 = (log (DdbPutItem updated) (log (DdbGetItem tid) w))
                \<lparr>tasks := upsert tid updated (tasks w)\<rparr>"
  shows "update_task e data uname usub grps w =
     (if Some st \<noteq> dget cur ''status'' then
        (case dget cur ''description'' of
           None \<Rightarrow> (Inl (KeyError ''description''), w2)
         | Some d \<Rightarrow>
             (Inr (reply 200 (UpdatedTask ''Task updated successfully'' updated)),
              snd (send_status_update_notification e tid d (dget cur ''status'') st uname
                     (dget cur ''assignedTo'') w2)))
      else (Inr (reply 200 (UpdatedTask ''Task updated successfully'' updated)), w2))"
proof -
  have k: "dget cur ''taskId'' = Some tid" by (rule find_key [OF assms(6)])
  then have ne: "cur \<noteq> []" by (auto simp: dget_def)
  have ku: "dget updated ''taskId'' = Some tid" by (simp add: assms(9) dget_dset k)
  have g: "get_item e tid w = (Inr (Some cur), log (DdbGetItem tid) w)"
    by (simp add: get_item_def assms(5,6))
  have p: "put_item e updated (log (DdbGetItem tid) w) = (Inr (), w2)"
    by (simp add: put_item_def assms(8,10) ku log_def)
  have d: "subscript updated ''description'' =
             (case dget cur ''description'' of None \<Rightarrow> Inl (KeyError ''description'')
              | Some v \<Rightarrow> Inr v)"
    using dget_dset [of "dset cur ''status'' st" "''updatedAt''" "clock1 e" "''description''"]
          dget_dset [of cur "''status''" st "''description''"]
    by (simp add: subscript_def assms(9) dget_def)
  have auth: "\<not> (''admin'' \<notin> set grps \<and> dget cur ''assignedTo'' \<noteq> Some usub)"
    using assms(7) by auto
  have t: "truthy (Some tid)" "truthy (Some st)" "str_of (Some tid) = tid" "str_of (Some st) = st"
    using assms(2,4) by (simp_all add: truthy_def str_of_def)
  show ?thesis
    by (simp add: update_task_def Let_def assms(1,3) t g ne auth p [unfolded assms(9)]
        d [unfolded assms(9)] assms(9) split: option.splits)
qed


lemma update_task_ok:
  assumes "fst (update_task e data uname usub grps w) = Inr r" and "statusCode r = 200"
  shows "\<exists>tid st cur.
     dget data ''taskId'' = Some tid \<and> tid \<noteq> [] \<and> dget data ''status'' = Some st \<and> st \<noteq> [] \<and>
     get_item_raises e = None \<and>
     find (\<lambda>t. dget t ''taskId'' = Some tid) (tasks w) = Some cur \<and>
     (''admin'' \<in> set grps \<or> dget cur ''assignedTo'' = Some usub) \<and>
     put_item_raises e = None"
proof -
  have "truthy (dget data ''taskId'') \<and> truthy (dget data ''status'')"
  proof (rule ccontr)
    assume "\<not> (truthy (dget data ''taskId'') \<and> truthy (dget data ''status''))"
    from update_task_bad_request [OF this, of e uname usub grps w] assms
    show False by (auto simp: reply_def)
  qed
  then obtain tid st where b: "dget data ''taskId'' = Some tid" "tid \<noteq> []"
      "dget data ''status'' = Some st" "st \<noteq> []"
    by (auto simp: truthy_def split: option.splits)
  have gr: "get_item_raises e = None"
  proof (cases "get_item_raises e")
    case (Some x)
    from update_task_read_fails [OF b this, of uname usub grps w] assms
    show ?thesis by (auto simp: reply_def)
  qed simp
  obtain cur where f: "find (\<lambda>t. dget t ''taskId'' = Some tid) (tasks w) = Some cur"
  proof (cases "find (\<lambda>t. dget t ''taskId'' = Some tid) (tasks w)")
    case None
    from update_task_missing [OF b gr this, of uname usub grps] assms
    show ?thesis by (auto simp: reply_def)
  qed simp
  have au: "''admin'' \<in> set grps \<or> dget cur ''assignedTo'' = Some usub"
  proof (rule ccontr)
    assume "\<not> (''admin'' \<in> set grps \<or> dget cur ''assignedTo'' = Some usub)"
    then have "''admin'' \<notin> set grps" "dget cur ''assignedTo'' \<noteq> Some usub" by simp_all
    from update_task_denied [OF b gr f this, of uname] assms
    show False by (auto simp: reply_def)
  qed
  have pr: "put_item_raises e = None"
  proof (cases "put_item_raises e")
    case (Some x)
    from update_task_write_fails [OF b gr f au this, of uname] assms
    show ?thesis by (auto simp: reply_def)
  qed simp
  from b gr f au pr show ?thesis by blast
qed

lemma update_task_ok_result:
  assumes "fst (update_task e data uname usub grps w) = Inr r" and "statusCode r = 200"
    and "dget data ''taskId'' = Some tid" and "dget data ''status'' = Some st"
    and "find (\<lambda>t. dget t ''taskId'' = Some tid) (tasks w) = Some cur"
    and "updated = dset (dset cur ''status'' st) ''updatedAt'' (clock1 e)"
    and "w2 = (log (DdbPutItem updated) (log (DdbGetItem tid) w))
                \<lparr>tasks := upsert tid updated (tasks w)\<rparr>"
  shows "r = reply 200 (UpdatedTask ''Task updated successfully'' updated) \<and>
         snd (update_task e data uname usub grps w) =
           (if Some st \<noteq> dget cur ''status'' then
              snd (send_status_update_notification e tid (str_of (dget cur ''description''))
                     (dget cur ''status'') st uname (dget cur ''assignedTo'') w2)
            else w2)"
proof -
  from update_task_ok [OF assms(1,2)] assms(3,4,5)
  have b: "dget data ''taskId'' = Some tid" "tid \<noteq> []" "dget data ''status'' = Some st" "st \<noteq> []"
    and gr: "get_item_raises e = None"
    and au: "''admin'' \<in> set grps \<or> dget cur ''assignedTo'' = Some usub"
    and pr: "put_item_raises e = None"
    by auto
  note wr = update_task_written [OF b gr assms(5) au pr assms(6,7), of uname]
  show ?thesis
  proof (cases "Some st \<noteq> dget cur ''status''")
    case False
    with wr assms(1) show ?thesis by simp
  next
    case True
    show ?thesis
    proof (cases "dget cur ''description''")
      case None
      with wr True assms(1) show ?thesis by simp
    next
      case (Some d)
      with wr True assms(1) show ?thesis by (simp add: str_of_def)
    qed
  qed
qed

text \<open>The update of the first task by its assignee, run in the small deployment.\<close>

lemma find_t1: "find (\<lambda>t. dget t ''taskId'' = Some ''t1'') (tasks world0) = Some task1"
  by (simp add: world0_def task1_def dget_def)

lemma update_t1:
  assumes "get_item_raises e = None" and "put_item_raises e = None"
    and "clock1 e = ''2025-12-24T10:00:00.000001+00:00''"
  shows "fst (update_task e done_t1 ''alice'' ''u1'' [''member''] world0) =
           Inr (reply 200 (UpdatedTask ''Task updated successfully'' task1_done))"
    and "\<not> (sns_client e \<and> publish_raises e = None) \<Longrightarrow>
           outbox (snd (update_task e done_t1 ''alice'' ''u1'' [''member''] world0)) = []"
proof -
  have d: "dget done_t1 ''taskId'' = Some ''t1''" "''t1'' \<noteq> []"
      "dget done_t1 ''status'' = Some ''Done''" "''Done'' \<noteq> []"
    by (simp_all add: done_t1_def dget_def)
  have a: "''admin'' \<in> set [''member''] \<or> dget task1 ''assignedTo'' = Some ''u1''"
    by (simp add: task1_def dget_def)
  have u: "task1_done = dset (dset task1 ''status'' ''Done'') ''updatedAt'' (clock1 e)"
    by (simp add: task1_def task1_done_def dset_def assms(3))
  note wr = update_task_written [OF d assms(1) find_t1 a assms(2) u refl, of "''alice''"]
  have s: "dget task1 ''status'' = Some ''New''" "dget task1 ''description'' = Some ''Wrap gifts''"
    by (simp_all add: task1_def dget_def)
  show "fst (update_task e done_t1 ''alice'' ''u1'' [''member''] world0) =
           Inr (reply 200 (UpdatedTask ''Task updated successfully'' task1_done))"
    by (simp add: wr s)
  have o: "outbox world0 = []" by (simp add: world0_def)
  show "outbox (snd (update_task e done_t1 ''alice'' ''u1'' [''member''] world0)) = []"
    if "\<not> (sns_client e \<and> publish_raises e = None)"
    using that by (simp add: wr s outbox_status_notification log_def o)
qed

lemma update_t1_env0:
  "fst (update_task env0 done_t1 ''alice'' ''u1'' [''member''] world0) =
     Inr (reply 200 (UpdatedTask ''Task updated successfully'' task1_done))"
  by (rule update_t1(1)) (simp_all add: env0_def)

subsection \<open>What an update rewrites\<close>

text \<open>
  Claim C7. For every update that succeeds (the answer is 200), the request names a stored
  record, and the record stored under that key afterwards, which is also the one returned in
  the body, has the request's \<^verbatim>\<open>status\<close>, the clock reading as \<^verbatim>\<open>updatedAt\<close>, and
  the prior record's value (or absence) for every other attribute; in particular
  \<^verbatim>\<open>taskId\<close>, \<^verbatim>\<open>assignedTo\<close>, \<^verbatim>\<open>deadline\<close>, \<^verbatim>\<open>description\<close>,
  \<^verbatim>\<open>createdBy\<close> and \<^verbatim>\<open>createdAt\<close> are unchanged.
\<close>

theorem update_task_frame:
  assumes "fst (update_task e data uname usub grps w) = Inr r" and "statusCode r = 200"
  shows "\<exists>tid st cur new.
     dget data ''taskId'' = Some tid \<and> dget data ''status'' = Some st \<and>
     find (\<lambda>t. dget t ''taskId'' = Some tid) (tasks w) = Some cur \<and>
     find (\<lambda>t. dget t ''taskId'' = Some tid)
       (tasks (snd (update_task e data uname usub grps w))) = Some new \<and>
     body r = UpdatedTask ''Task updated successfully'' new \<and>
     dget new ''status'' = Some st \<and> dget new ''updatedAt'' = Some (clock1 e) \<and>
     (\<forall>k. k \<noteq> ''status'' \<and> k \<noteq> ''updatedAt'' \<longrightarrow> dget new k = dget cur k) \<and>
     (\<forall>k \<in> set [''taskId'', ''assignedTo'', ''deadline'', ''description'', ''createdBy'',
                 ''createdAt'']. dget new k = dget cur k)"
proof -
  from update_task_ok [OF assms] obtain tid st cur where
    b: "dget data ''taskId'' = Some tid" "dget data ''status'' = Some st"
    and f: "find (\<lambda>t. dget t ''taskId'' = Some tid) (tasks w) = Some cur"
    by blast
  define new where "new = dset (dset cur ''status'' st) ''updatedAt'' (clock1 e)"
  define w2 where "w2 = (log (DdbPutItem new) (log (DdbGetItem tid) w))
                          \<lparr>tasks := upsert tid new (tasks w)\<rparr>"
  note res = update_task_ok_result [OF assms b f new_def w2_def]
  have k: "dget new ''taskId'' = Some tid"
    using find_key [OF f] by (simp add: new_def dget_dset)
  have "tasks (snd (update_task e data uname usub grps w)) = upsert tid new (tasks w)"
    using res by (simp add: tasks_status_notification w2_def)
  then have fn: "find (\<lambda>t. dget t ''taskId'' = Some tid)
       (tasks (snd (update_task e data uname usub grps w))) = Some new"
    by (simp add: find_upsert [OF k])
  have bd: "body r = UpdatedTask ''Task updated successfully'' new"
    using res by (simp add: reply_def)
  have fr: "\<forall>k. k \<noteq> ''status'' \<and> k \<noteq> ''updatedAt'' \<longrightarrow> dget new k = dget cur k"
    by (simp add: new_def dget_dset)
  have "dget new ''status'' = Some st" "dget new ''updatedAt'' = Some (clock1 e)"
    by (simp_all add: new_def dget_dset)
  with b f fn bd fr show ?thesis by (intro exI [of _ tid] exI [of _ st] exI [of _ cur] exI [of _ new]) simp
qed

theorem update_task_frame_witness:
  "fst (update_task env0 done_t1 ''alice'' ''u1'' [''member''] world0) =
     Inr (reply 200 (UpdatedTask ''Task updated successfully'' task1_done)) \<and>
   statusCode (reply 200 (UpdatedTask ''Task updated successfully'' task1_done)) = 200 \<and>
   (\<exists>new. find (\<lambda>t. dget t ''taskId'' = Some ''t1'')
        (tasks (snd (update_task env0 done_t1 ''alice'' ''u1'' [''member''] world0))) = Some new \<and>
      dget new ''status'' = Some ''Done'' \<and>
      dget new ''assignedTo'' = dget task1 ''assignedTo'' \<and>
      dget new ''deadline'' = dget task1 ''deadline'')"
proof -
  have s: "statusCode (reply 200 (UpdatedTask ''Task updated successfully'' task1_done)) = 200"
    by (simp add: reply_def)
  note fr = update_task_frame [OF update_t1_env0 s]
  from fr obtain tid where 1: "\<exists>st cur new.
     dget done_t1 ''taskId'' = Some tid \<and> dget done_t1 ''status'' = Some st \<and>
     find (\<lambda>t. dget t ''taskId'' = Some tid) (tasks world0) = Some cur \<and>
     find (\<lambda>t. dget t ''taskId'' = Some tid)
       (tasks (snd (update_task env0 done_t1 ''alice'' ''u1'' [''member''] world0))) = Some new \<and>
     body (reply 200 (UpdatedTask ''Task updated successfully'' task1_done)) =
       UpdatedTask ''Task updated successfully'' new \<and>
     dget new ''status'' = Some st \<and> dget new ''updatedAt'' = Some (clock1 env0) \<and>
     (\<forall>k. k \<noteq> ''status'' \<and> k \<noteq> ''updatedAt'' \<longrightarrow> dget new k = dget cur k) \<and>
     (\<forall>k \<in> set [''taskId'', ''assignedTo'', ''deadline'', ''description'', ''createdBy'',
                 ''createdAt'']. dget new k = dget cur k)" ..
  then obtain st where 2: "\<exists>cur new.
     dget done_t1 ''taskId'' = Some tid \<and> dget done_t1 ''status'' = Some st \<and>
     find (\<lambda>t. dget t ''taskId'' = Some tid) (tasks world0) = Some cur \<and>
     find (\<lambda>t. dget t ''taskId'' = Some tid)
       (tasks (snd (update_task env0 done_t1 ''alice'' ''u1'' [''member''] world0))) = Some new \<and>
     body (reply 200 (UpdatedTask ''Task updated successfully'' task1_done)) =
       UpdatedTask ''Task updated successfully'' new \<and>
     dget new ''status'' = Some st \<and> dget new ''updatedAt'' = Some (clock1 env0) \<and>
     (\<forall>k. k \<noteq> ''status'' \<and> k \<noteq> ''updatedAt'' \<longrightarrow> dget new k = dget cur k) \<and>
     (\<forall>k \<in> set [''taskId'', ''assignedTo'', ''deadline'', ''description'', ''createdBy'',
                 ''createdAt'']. dget new k = dget cur k)" ..
  then obtain cur where 3: "\<exists>new.
     dget done_t1 ''taskId'' = Some tid \<and> dget done_t1 ''status'' = Some st \<and>
     find (\<lambda>t. dget t ''taskId'' = Some tid) (tasks world0) = Some cur \<and>
     find (\<lambda>t. dget t ''taskId'' = Some tid)
       (tasks (snd (update_task env0 done_t1 ''alice'' ''u1'' [''member''] world0))) = Some new \<and>
     body (reply 200 (UpdatedTask ''Task updated successfully'' task1_done)) =
       UpdatedTask ''Task updated successfully'' new \<and>
     dget new ''status'' = Some st \<and> dget new ''updatedAt'' = Some (clock1 env0) \<and>
     (\<forall>k. k \<noteq> ''status'' \<and> k \<noteq> ''updatedAt'' \<longrightarrow> dget new k = dget cur k) \<and>
     (\<forall>k \<in> set [''taskId'', ''assignedTo'', ''deadline'', ''description'', ''createdBy'',
                 ''createdAt'']. dget new k = dget cur k)" ..
  then obtain new where
     h1: "dget done_t1 ''taskId'' = Some tid" and h2: "dget done_t1 ''status'' = Some st" and
     h3: "find (\<lambda>t. dget t ''taskId'' = Some tid) (tasks world0) = Some cur" and
     h4: "find (\<lambda>t. dget t ''taskId'' = Some tid)
       (tasks (snd (update_task env0 done_t1 ''alice'' ''u1'' [''member''] world0))) = Some new" and
     h5: "dget new ''status'' = Some st" and
     h6: "\<forall>k. k \<noteq> ''status'' \<and> k \<noteq> ''updatedAt'' \<longrightarrow> dget new k = dget cur k"
    by (elim exE conjE)
  from h1 h2 have t: "tid = ''t1''" "st = ''Done''" by (simp_all add: done_t1_def dget_def)
  from h3 find_t1 have c: "cur = task1" unfolding t by simp
  from h6 have a: "dget new ''assignedTo'' = dget cur ''assignedTo''"
    "dget new ''deadline'' = dget cur ''deadline''" by simp_all
  have "\<exists>new. find (\<lambda>t. dget t ''taskId'' = Some ''t1'')
        (tasks (snd (update_task env0 done_t1 ''alice'' ''u1'' [''member''] world0))) = Some new \<and>
      dget new ''status'' = Some ''Done'' \<and>
      dget new ''assignedTo'' = dget task1 ''assignedTo'' \<and>
      dget new ''deadline'' = dget task1 ''deadline''"
    using h4 h5 a unfolding t c by (intro exI [of _ new] conjI)
  with update_t1_env0 s show ?thesis by (intro conjI)
qed

subsection \<open>When an update publishes a status change\<close>

text \<open>
  Claim C6, as amended. For every update that succeeds on the stored record \<^verbatim>\<open>cur\<close>: a
  status-change notification reaches the topic if and only if the request's status differs
  from the prior status, the topic is configured and the publish call does not raise; then
  exactly one message is added, addressed to the configured topic. In every other case, in
  particular when the status is rewritten with the same value, nothing is published.
\<close>

theorem update_task_notifies:
  assumes "fst (update_task e data uname usub grps w) = Inr r" and "statusCode r = 200"
    and "dget data ''taskId'' = Some tid" and "dget data ''status'' = Some st"
    and "find (\<lambda>t. dget t ''taskId'' = Some tid) (tasks w) = Some cur"
  shows "(Some st \<noteq> dget cur ''status'' \<and> sns_client e \<and> publish_raises e = None \<longrightarrow>
           (\<exists>subject text. outbox (snd (update_task e data uname usub grps w)) =
              outbox w @ [Notification (str_of (NOTIFICATION_TOPIC_ARN e)) (Some subject) text])) \<and>
         (\<not> (Some st \<noteq> dget cur ''status'' \<and> sns_client e \<and> publish_raises e = None) \<longrightarrow>
           outbox (snd (update_task e data uname usub grps w)) = outbox w)"
proof -
  define new where "new = dset (dset cur ''status'' st) ''updatedAt'' (clock1 e)"
  define w2 where "w2 = (log (DdbPutItem new) (log (DdbGetItem tid) w))
                          \<lparr>tasks := upsert tid new (tasks w)\<rparr>"
  note res = update_task_ok_result [OF assms new_def w2_def]
  have o: "outbox w2 = outbox w" by (simp add: w2_def log_def)
  show ?thesis
    using res by (auto simp: outbox_status_notification o)
qed

theorem update_task_notifies_witness:
  "fst (update_task env0 done_t1 ''alice'' ''u1'' [''member''] world0) =
     Inr (reply 200 (UpdatedTask ''Task updated successfully'' task1_done)) \<and>
   Some ''Done'' \<noteq> dget task1 ''status'' \<and> sns_client env0 \<and> publish_raises env0 = None \<and>
   (\<exists>subject text. outbox (snd (update_task env0 done_t1 ''alice'' ''u1'' [''member''] world0)) =
      outbox world0 @ [Notification (str_of (NOTIFICATION_TOPIC_ARN env0)) (Some subject) text])"
proof -
  have s: "statusCode (reply 200 (UpdatedTask ''Task updated successfully'' task1_done)) = 200"
    by (simp add: reply_def)
  have d: "dget done_t1 ''taskId'' = Some ''t1''" "dget done_t1 ''status'' = Some ''Done''"
    by (simp_all add: done_t1_def dget_def)
  have c: "Some ''Done'' \<noteq> dget task1 ''status'' \<and> sns_client env0 \<and> publish_raises env0 = None"
    by (simp add: task1_def dget_def sns_client_def truthy_def env0_def)
  note n = update_task_notifies [OF update_t1_env0 s d find_t1, THEN conjunct1, rule_format, OF c]
  from c n update_t1_env0 show ?thesis by (intro conjI) (elim conjE, assumption)+
qed

text \<open>
  The claim as stated, that a notification is published whenever the new status differs,
  fails when the topic is not configured (the helper returns before any call) and when the
  publish call raises (the helper swallows the error): the first task goes from
  \<^verbatim>\<open>New\<close> to \<^verbatim>\<open>Done\<close>, the answer is 200 and no message is published.
\<close>

theorem update_task_unannounced:
  "fst (update_task (env0\<lparr>NOTIFICATION_TOPIC_ARN := None\<rparr>) done_t1 ''alice'' ''u1''
          [''member''] world0) =
     Inr (reply 200 (UpdatedTask ''Task updated successfully'' task1_done)) \<and>
   statusCode (reply 200 (UpdatedTask ''Task updated successfully'' task1_done)) = 200 \<and>
   dget task1 ''status'' = Some ''New'' \<and> dget done_t1 ''status'' = Some ''Done'' \<and>
   outbox (snd (update_task (env0\<lparr>NOTIFICATION_TOPIC_ARN := None\<rparr>) done_t1 ''alice'' ''u1''
          [''member''] world0)) = [] \<and>
   fst (update_task (env0\<lparr>publish_raises := Some (ClientError ''Throttled'')\<rparr>) done_t1 ''alice''
          ''u1'' [''member''] world0) =
     Inr (reply 200 (UpdatedTask ''Task updated successfully'' task1_done)) \<and>
   outbox (snd (update_task (env0\<lparr>publish_raises := Some (ClientError ''Throttled'')\<rparr>) done_t1
          ''alice'' ''u1'' [''member''] world0)) = []"
proof -
  have 1: "get_item_raises (env0\<lparr>NOTIFICATION_TOPIC_ARN := None\<rparr>) = None"
      "put_item_raises (env0\<lparr>NOTIFICATION_TOPIC_ARN := None\<rparr>) = None"
      "clock1 (env0\<lparr>NOTIFICATION_TOPIC_ARN := None\<rparr>) = ''2025-12-24T10:00:00.000001+00:00''"
      "\<not> sns_client (env0\<lparr>NOTIFICATION_TOPIC_ARN := None\<rparr>)"
    by (simp_all add: env0_def sns_client_def truthy_def)
  have 2: "get_item_raises (env0\<lparr>publish_raises := Some (ClientError ''Throttled'')\<rparr>) = None"
      "put_item_raises (env0\<lparr>publish_raises := Some (ClientError ''Throttled'')\<rparr>) = None"
      "clock1 (env0\<lparr>publish_raises := Some (ClientError ''Throttled'')\<rparr>) =
         ''2025-12-24T10:00:00.000001+00:00''"
      "publish_raises (env0\<lparr>publish_raises := Some (ClientError ''Throttled'')\<rparr>) \<noteq> None"
    by (simp_all add: env0_def)
  have s: "dget task1 ''status'' = Some ''New''" "dget done_t1 ''status'' = Some ''Done''"
    by (simp_all add: task1_def done_t1_def dget_def)
  from update_t1 [OF 1(1,2,3)] update_t1 [OF 2(1,2,3)] 1(4) 2(4) s
  show ?thesis by (simp add: reply_def)
qed

subsection \<open>Notification channels do not decide the result\<close>

lemma channels_services:
  "list_users (with_channels e s x t y) = list_users e"
  "get_item (with_channels e s x t y) = get_item e"
  "put_item (with_channels e s x t y) = put_item e"
  "uuid4 (with_channels e s x t y) = uuid4 e"
  "clock1 (with_channels e s x t y) = clock1 e"
  "clock2 (with_channels e s x t y) = clock2 e"
  by (simp_all add: with_channels_def list_users_def get_item_def put_item_def fun_eq_iff)

lemma tasks_assignment_email:
  "tasks (snd (send_task_assignment_email e r d dl a w)) = tasks w"
  by (simp add: send_task_assignment_email_def log_def split: option.splits)

lemma email_not_sent:
  "\<not> ses_client e \<or> send_email_raises e \<noteq> None \<Longrightarrow>
   fst (send_task_assignment_email e r d dl a w) = False"
  by (auto simp: send_task_assignment_email_def split: option.splits)

lemma status_not_published:
  "\<not> sns_client e \<or> publish_raises e \<noteq> None \<Longrightarrow>
   fst (send_status_update_notification e tid d old new by a w) = False"
  by (auto simp: send_status_update_notification_def Let_def split: option.splits)

lemma create_task_channels:
  "fst (create_task (with_channels e s x t y) data c g w) = fst (create_task e data c g w) \<and>
   tasks (snd (create_task (with_channels e s x t y) data c g w)) =
     tasks (snd (create_task e data c g w))"
  by (simp add: create_task_def Let_def channels_services tasks_assignment_email
      split: option.splits prod.splits sum.splits list.splits exn.splits)


lemma update_task_channels:
  "fst (update_task (with_channels e s x t y) data un us g w) = fst (update_task e data un us g w) \<and>
   tasks (snd (update_task (with_channels e s x t y) data un us g w)) =
     tasks (snd (update_task e data un us g w))"
  by (simp add: update_task_def Let_def channels_services tasks_status_notification
      split: option.splits prod.splits sum.splits)

lemma create_t9_env0:
  "fst (create_task env0 new_task ''root'' [''admin''] world0) = Inr (reply 201 (Item task9))"
  by (simp add: create_task_def Let_def new_task_def task9_def list_users_def env0_def world0_def
      alice_def bob_def dget_def truthy_def subscript_def put_item_def log_def)

text \<open>
  Claim C9. The email helper returns \<^verbatim>\<open>False\<close> when the sender address is not
  configured or the send raises, and the topic helper returns \<^verbatim>\<open>False\<close> when the
  topic is not configured or the publish raises; both are total, so neither raises. The
  answer of a create and of an update (the response, or the exception of the handler itself)
  and the records stored afterwards are the same whatever the configuration of the two
  channels and whatever their send calls do: a create that answers 201 and an update that
  answers 200 with working channels answer the same with channels that are absent or fail.
\<close>

theorem notification_failures_isolated:
  "(\<not> ses_client e \<or> send_email_raises e \<noteq> None \<longrightarrow>
      fst (send_task_assignment_email e rcpt d dl a w) = False) \<and>
   (\<not> sns_client e \<or> publish_raises e \<noteq> None \<longrightarrow>
      fst (send_status_update_notification e tid descr old new who asg w) = False) \<and>
   fst (create_task (with_channels e s x t y) data c g w) = fst (create_task e data c g w) \<and>
   tasks (snd (create_task (with_channels e s x t y) data c g w)) =
     tasks (snd (create_task e data c g w)) \<and>
   fst (update_task (with_channels e s x t y) data un us g w) =
     fst (update_task e data un us g w) \<and>
   tasks (snd (update_task (with_channels e s x t y) data un us g w)) =
     tasks (snd (update_task e data un us g w))"
  using email_not_sent [of e rcpt d dl a w] status_not_published [of e tid descr old new who asg w]
    create_task_channels [of e s x t y data c g w] update_task_channels [of e s x t y data un us g w]
  by blast

theorem notification_failures_isolated_witness:
  "\<not> ses_client (with_channels env0 None None None (Some (ClientError ''Throttled''))) \<and>
   publish_raises (with_channels env0 None None None (Some (ClientError ''Throttled''))) \<noteq> None \<and>
   fst (send_task_assignment_email
          (with_channels env0 None None None (Some (ClientError ''Throttled'')))
          ''alice@example.com'' ''Feed reindeer'' ''2025-12-25T00:00:00+00:00'' ''alice'' world0)
     = False \<and>
   fst (send_status_update_notification
          (with_channels env0 None None None (Some (ClientError ''Throttled'')))
          ''t1'' ''Wrap gifts'' (Some ''New'') ''Done'' ''alice'' (Some ''u1'') world0) = False \<and>
   fst (create_task (with_channels env0 None None None (Some (ClientError ''Throttled'')))
          new_task ''root'' [''admin''] world0) = Inr (reply 201 (Item task9)) \<and>
   fst (update_task (with_channels env0 None None None (Some (ClientError ''Throttled'')))
          done_t1 ''alice'' ''u1'' [''member''] world0) =
     Inr (reply 200 (UpdatedTask ''Task updated successfully'' task1_done))"
proof -
  let ?e = "with_channels env0 None None None (Some (ClientError ''Throttled''))"
  have a: "\<not> ses_client ?e" "publish_raises ?e \<noteq> None"
    by (simp_all add: with_channels_def ses_client_def truthy_def)
  note h = notification_failures_isolated [where e = ?e and rcpt = "''alice@example.com''"
      and d = "''Feed reindeer''" and dl = "''2025-12-25T00:00:00+00:00''" and a = "''alice''"
      and w = world0 and tid = "''t1''" and descr = "''Wrap gifts''" and old = "Some ''New''"
      and new = "''Done''" and who = "''alice''" and asg = "Some ''u1''"]
  note i = notification_failures_isolated [where e = env0 and s = None and x = None
      and t = None and y = "Some (ClientError ''Throttled'')" and data = new_task
      and c = "''root''" and g = "[''admin'']" and w = world0]
  note j = notification_failures_isolated [where e = env0 and s = None and x = None
      and t = None and y = "Some (ClientError ''Throttled'')" and data = done_t1
      and un = "''alice''" and us = "''u1''" and g = "[''member'']" and w = world0]
  from a h have 1: "fst (send_task_assignment_email ?e ''alice@example.com'' ''Feed reindeer''
        ''2025-12-25T00:00:00+00:00'' ''alice'' world0) = False"
    and 2: "fst (send_status_update_notification ?e ''t1'' ''Wrap gifts'' (Some ''New'') ''Done''
        ''alice'' (Some ''u1'') world0) = False"
    by blast+
  from i have 3: "fst (create_task ?e new_task ''root'' [''admin''] world0) =
        fst (create_task env0 new_task ''root'' [''admin''] world0)"
    by blast
  from j have 4: "fst (update_task ?e done_t1 ''alice'' ''u1'' [''member''] world0) =
        fst (update_task env0 done_t1 ''alice'' ''u1'' [''member''] world0)"
    by blast
  from a 1 2 3 4 create_t9_env0 update_t1_env0 show ?thesis by simp
qed

end
